theory Spec2Isabelle
  imports Main "HOL-Library.Word" "HOL-Library.Sublist"
begin

unbundle bit_operations_syntax

section \<open>The EDI gateway (main.go) as a shallow embedding\<close>

text \<open>
  The program is two HTTP handlers over three collaborators: a PostgreSQL table reached
  through GORM, a Kafka writer and two Prometheus counters. The handlers are embedded as
  functions that take the state of the collaborators (\<open>World\<close>) and return it updated.
  What a request cannot determine (the random bytes behind the UUID, the clock, whether the
  database or the broker reports an error) is an explicit input of the call.
\<close>

subsection \<open>Values: time stamps, JSON documents, the Transaction struct\<close>

text \<open>
  A \<open>time.Time\<close> value, by what it denotes: the calendar fields its \<open>Format\<close> reads, the
  fraction of the second, the zone and the monotonic clock reading.
\<close>

record Time =
  year :: int
  month :: nat
  day :: nat
  hour :: nat
  minute :: nat
  second :: nat
  nanosecond :: nat
  zone_name :: string
  zone_offset :: int
  monotonic :: "int option"

text \<open>The zero \<open>time.Time\<close>: January 1, year 1, 00:00:00 UTC.\<close>

definition zero_Time :: Time where
  "zero_Time = \<lparr>year = 1, month = 1, day = 1, hour = 0, minute = 0, second = 0,
     nanosecond = 0, zone_name = ''UTC'', zone_offset = 0, monotonic = None\<rparr>"

text \<open>
  A JSON document as a value. Strings are held decoded; a number keeps its literal text;
  an object keeps its members in order, duplicates included.
\<close>

datatype json =
    JNull
  | JBool bool
  | JNumber string
  | JString string
  | JArray "json list"
  | JObject "(string \<times> json) list"

text \<open>
  \<^verbatim>\<open>
  type Transaction struct {
      ID       string    `json:"id" gorm:"primaryKey"`
      Date     time.Time `json:"date"`
      ShipTo   string    `json:"ship_to"`
      ItemList string    `json:"items"` // JSON string of items
      Status   string    `json:"status"`
  }
  \<close>
\<close>

record Transaction =
  ID :: string
  Date :: Time
  ShipTo :: string
  ItemList :: string
  Status :: string

definition zero_Transaction :: Transaction where
  "zero_Transaction = \<lparr>ID = [], Date = zero_Time, ShipTo = [], ItemList = [], Status = []\<rparr>"

text \<open>The struct's fields and the \<open>json\<close> tags the declaration gives them.\<close>

datatype field = F_ID | F_Date | F_ShipTo | F_ItemList | F_Status

fun json_tag :: "field \<Rightarrow> string" where
  "json_tag F_ID = ''id''"
| "json_tag F_Date = ''date''"
| "json_tag F_ShipTo = ''ship_to''"
| "json_tag F_ItemList = ''items''"
| "json_tag F_Status = ''status''"

fun go_name :: "field \<Rightarrow> string" where
  "go_name F_ID = ''Transaction.id''"
| "go_name F_Date = ''Transaction.date''"
| "go_name F_ShipTo = ''Transaction.ship_to''"
| "go_name F_ItemList = ''Transaction.items''"
| "go_name F_Status = ''Transaction.status''"

definition struct_fields :: "field list" where
  "struct_fields = [F_ID, F_Date, F_ShipTo, F_ItemList, F_Status]"

text \<open>
  The functions of package \<open>time\<close> that the ingress handler reaches only through
  \<open>encoding/json\<close> and \<open>fmt\<close> are parameters of the model: \<open>Time.UnmarshalJSON\<close>
  (applied to the text of a JSON string; \<open>None\<close> when it reports an error),
  \<open>Time.String\<close> (what \<open>%+v\<close> prints for the field) and \<open>Time.MarshalJSON\<close>
  (\<open>None\<close> when it reports an error).
\<close>

record time_pkg =
  time_UnmarshalJSON :: "string \<Rightarrow> Time option"
  time_String :: "Time \<Rightarrow> string"
  time_MarshalJSON :: "Time \<Rightarrow> json option"

subsection \<open>time.Time.Format with the layout of the egress line\<close>

definition newline :: string where
  "newline = [CHR 0x0A]"

text \<open>
  Decimal digits of an unsigned number, assembled from the least significant digit as the
  library's loop does.
\<close>

fun decimal :: "nat \<Rightarrow> string \<Rightarrow> string" where
  "decimal u acc =
     (if u < 10 then char_of (48 + u) # acc
      else decimal (u div 10) (char_of (48 + u mod 10) # acc))"

text \<open>
  \<open>appendInt\<close> of package \<open>time\<close>: a minus sign for a negative number, then the decimal
  form padded with leading zeros to \<open>width\<close>.
\<close>

definition appendInt :: "int \<Rightarrow> nat \<Rightarrow> string" where
  "appendInt x width =
     (let ds = decimal (nat \<bar>x\<bar>) []
      in (if x < 0 then ''-'' else []) @ replicate (width - length ds) (CHR ''0'') @ ds)"

text \<open>\<open>t.Format("2006-01-02 15:04:05")\<close>.\<close>

definition Format_datetime :: "Time \<Rightarrow> string" where
  "Format_datetime t =
     appendInt (year t) 4 @ ''-'' @ appendInt (int (month t)) 2 @ ''-'' @
     appendInt (int (day t)) 2 @ '' '' @ appendInt (int (hour t)) 2 @ '':'' @
     appendInt (int (minute t)) 2 @ '':'' @ appendInt (int (second t)) 2"

subsection \<open>uuid.New().String()\<close>

text \<open>
  \<open>uuid.New\<close> is \<open>Must(NewRandom())\<close>: it reads 16 bytes from the random source with
  \<open>io.ReadFull\<close>, sets the version and variant bits, and panics when the read fails.
  The argument is what the random source delivers; \<open>io.ReadFull\<close> reports \<open>EOF\<close> when
  it delivers no byte and \<open>unexpected EOF\<close> when it delivers fewer than 16.
\<close>

definition uuid_NewRandom :: "8 word list \<Rightarrow> string + 8 word list" where
  "uuid_NewRandom r =
     (if length r < 16 then Inl (if r = [] then ''EOF'' else ''unexpected EOF'')
      else
        (let u = take 16 r;
             u = u[6 := (u ! 6 AND 0x0f) OR 0x40];
             u = u[8 := (u ! 8 AND 0x3f) OR 0x80]
         in Inr u))"

definition hextable :: string where
  "hextable = ''0123456789abcdef''"

fun hex_Encode :: "8 word list \<Rightarrow> string" where
  "hex_Encode [] = []"
| "hex_Encode (v # vs) =
     hextable ! unat (drop_bit 4 v) # hextable ! unat (v AND 0x0f) # hex_Encode vs"

definition uuid_String :: "8 word list \<Rightarrow> string" where
  "uuid_String u =
     hex_Encode (take 4 u) @ ''-'' @ hex_Encode (take 2 (drop 4 u)) @ ''-'' @
     hex_Encode (take 2 (drop 6 u)) @ ''-'' @ hex_Encode (take 2 (drop 8 u)) @ ''-'' @
     hex_Encode (drop 10 u)"

subsection \<open>json.NewDecoder(r.Body).Decode(&transaction)\<close>

text \<open>
  The decoder matches an object key against the fields' tags: an exact match first, else
  the first field whose tag is equal under case folding. \<open>equalFold\<close> is the library's
  folding comparison for an ASCII tag \<open>s\<close> against the key's bytes \<open>t\<close>: ASCII letters
  compare without case, other ASCII bytes exactly, and the long s (U+017F, bytes C5 BF)
  and the Kelvin sign (U+212A, bytes E2 84 AA) fold to \<open>s\<close> and \<open>k\<close>.
\<close>

definition byte :: "char \<Rightarrow> 8 word" where
  "byte c = of_char c"

fun equalFold :: "string \<Rightarrow> string \<Rightarrow> bool" where
  "equalFold [] t = (t = [])"
| "equalFold (sb # s) [] = False"
| "equalFold (sb # s) (tb # t) =
     (if byte tb < 0x80 then
        (if sb \<noteq> tb then
           (let sbUpper = byte sb AND 0xDF in
            if 0x41 \<le> sbUpper \<and> sbUpper \<le> 0x5A then
              (if sbUpper \<noteq> (byte tb AND 0xDF) then False else equalFold s t)
            else False)
         else equalFold s t)
      else if sb = CHR ''s'' \<or> sb = CHR ''S'' then
        (case t of
           c # t' \<Rightarrow> tb = CHR 0xC5 \<and> c = CHR 0xBF \<and> equalFold s t'
         | [] \<Rightarrow> False)
      else if sb = CHR ''k'' \<or> sb = CHR ''K'' then
        (case t of
           c # d # t' \<Rightarrow> tb = CHR 0xE2 \<and> c = CHR 0x84 \<and> d = CHR 0xAA \<and> equalFold s t'
         | _ \<Rightarrow> False)
      else False)"

definition find_field :: "string \<Rightarrow> field option" where
  "find_field key =
     (case List.find (\<lambda>f. json_tag f = key) struct_fields of
        Some f \<Rightarrow> Some f
      | None \<Rightarrow> List.find (\<lambda>f. equalFold (json_tag f) key) struct_fields)"

datatype decode_error =
    SyntaxError
  | UnmarshalTypeError string string
  | TimeError

fun json_kind :: "json \<Rightarrow> string" where
  "json_kind JNull = ''null''"
| "json_kind (JBool b) = ''bool''"
| "json_kind (JNumber n) = ''number''"
| "json_kind (JString s) = ''string''"
| "json_kind (JArray vs) = ''array''"
| "json_kind (JObject kvs) = ''object''"

text \<open>
  Storing one member's value into the field it names. \<open>null\<close> leaves the field as it is.
  A string field takes a JSON string; any other value is a type error that the decoder
  saves while it goes on. The \<open>Date\<close> field is decoded by \<open>Time.UnmarshalJSON\<close>, whose
  error ends the decoding at once.
\<close>

datatype store_result = Stored Transaction | Saved decode_error | Abort decode_error

fun set_string :: "field \<Rightarrow> string \<Rightarrow> Transaction \<Rightarrow> Transaction" where
  "set_string F_ID x t = t\<lparr>ID := x\<rparr>"
| "set_string F_ShipTo x t = t\<lparr>ShipTo := x\<rparr>"
| "set_string F_ItemList x t = t\<lparr>ItemList := x\<rparr>"
| "set_string F_Status x t = t\<lparr>Status := x\<rparr>"
| "set_string F_Date x t = t"

definition store :: "time_pkg \<Rightarrow> field \<Rightarrow> json \<Rightarrow> Transaction \<Rightarrow> store_result" where
  "store L f v t =
     (case v of
        JNull \<Rightarrow> Stored t
      | JString x \<Rightarrow>
          (if f = F_Date then
             (case time_UnmarshalJSON L x of
                Some d \<Rightarrow> Stored (t\<lparr>Date := d\<rparr>)
              | None \<Rightarrow> Abort TimeError)
           else Stored (set_string f x t))
      | _ \<Rightarrow>
          (if f = F_Date then Abort TimeError
           else Saved (UnmarshalTypeError (json_kind v) (go_name f))))"

text \<open>
  The decoder's loop over the members of an object: a key that names no field is skipped,
  the first saved error is kept, and a later member overwrites an earlier one.
\<close>

fun object :: "time_pkg \<Rightarrow> (string \<times> json) list \<Rightarrow> Transaction \<Rightarrow> decode_error option
    \<Rightarrow> decode_error + (Transaction \<times> decode_error option)" where
  "object L [] t saved = Inr (t, saved)"
| "object L ((key, v) # rest) t saved =
     (case find_field key of
        None \<Rightarrow> object L rest t saved
      | Some f \<Rightarrow>
          (case store L f v t of
             Abort e \<Rightarrow> Inl e
           | Saved e \<Rightarrow> object L rest t (case saved of None \<Rightarrow> Some e | Some e0 \<Rightarrow> Some e0)
           | Stored t' \<Rightarrow> object L rest t' saved))"

text \<open>
  \<open>Decode\<close> into a zero \<open>Transaction\<close>. The request body is given as the first JSON
  value the decoder reads from it, \<open>None\<close> when the body does not start with a well-formed
  JSON value (a syntax error, or an empty body). A top-level \<open>null\<close> stores nothing and
  is no error; any value but an object or \<open>null\<close> is a type error.
\<close>

definition json_Decode :: "time_pkg \<Rightarrow> json option \<Rightarrow> decode_error + Transaction" where
  "json_Decode L rbody =
     (case rbody of
        None \<Rightarrow> Inl SyntaxError
      | Some JNull \<Rightarrow> Inr zero_Transaction
      | Some (JObject kvs) \<Rightarrow>
          (case object L kvs zero_Transaction None of
             Inl e \<Rightarrow> Inl e
           | Inr (t, Some e) \<Rightarrow> Inl e
           | Inr (t, None) \<Rightarrow> Inr t)
      | Some v \<Rightarrow> Inl (UnmarshalTypeError (json_kind v) ''Transaction''))"

text \<open>
  Two readings of an object's members, used to state what the decoder keeps. The member
  that supplies the item payload is the last one whose key names the \<open>ItemList\<close> field
  and whose value is not \<open>null\<close>; \<open>items_member\<close> is its value, \<open>None\<close> when there is
  no such member. A document omits the payload fields when none of its members names
  \<open>ShipTo\<close> or \<open>ItemList\<close>; a document that is no object has no members.
\<close>

definition items_member :: "(string \<times> json) list \<Rightarrow> json option" where
  "items_member kvs =
     (case filter (\<lambda>(k, v). find_field k = Some F_ItemList \<and> v \<noteq> JNull) kvs of
        [] \<Rightarrow> None
      | m # ms \<Rightarrow> Some (snd (last (m # ms))))"

definition omits_payload :: "json \<Rightarrow> bool" where
  "omits_payload v =
     (case v of
        JObject kvs \<Rightarrow>
          list_all (\<lambda>(k, x). find_field k \<noteq> Some F_ShipTo \<and> find_field k \<noteq> Some F_ItemList) kvs
      | _ \<Rightarrow> True)"

text \<open>
  \<open>json.Marshal(transaction)\<close>, as the JSON value of the bytes it returns; \<open>None\<close> when
  it returns an error (and no bytes), which only the \<open>Date\<close> field can cause.
\<close>

definition json_Marshal :: "time_pkg \<Rightarrow> Transaction \<Rightarrow> json option" where
  "json_Marshal L t =
     (case time_MarshalJSON L (Date t) of
        None \<Rightarrow> None
      | Some d \<Rightarrow>
          Some (JObject [(''id'', JString (ID t)), (''date'', d),
            (''ship_to'', JString (ShipTo t)), (''items'', JString (ItemList t)),
            (''status'', JString (Status t))]))"

text \<open>\<open>%+v\<close> of the struct: the field names with their values, the time through its \<open>String\<close>.\<close>

definition fmt_plus_v :: "time_pkg \<Rightarrow> Transaction \<Rightarrow> string" where
  "fmt_plus_v L t =
     ''{ID:'' @ ID t @ '' Date:'' @ time_String L (Date t) @ '' ShipTo:'' @ ShipTo t @
     '' ItemList:'' @ ItemList t @ '' Status:'' @ Status t @ ''}''"

subsection \<open>The response writer\<close>

text \<open>
  An \<open>http.ResponseWriter\<close>: the status line is written once, by \<open>WriteHeader\<close> or by
  the first \<open>Write\<close> (as 200); the server writes it as 200 when the handler returns
  without having written anything. Response headers are not modelled.
\<close>

record ResponseWriter =
  wroteHeader :: bool
  status :: nat
  body :: string

definition new_ResponseWriter :: ResponseWriter where
  "new_ResponseWriter = \<lparr>wroteHeader = False, status = 0, body = []\<rparr>"

definition WriteHeader :: "ResponseWriter \<Rightarrow> nat \<Rightarrow> ResponseWriter" where
  "WriteHeader w code = (if wroteHeader w then w else w\<lparr>wroteHeader := True, status := code\<rparr>)"

definition Write :: "ResponseWriter \<Rightarrow> string \<Rightarrow> ResponseWriter" where
  "Write w p = (let w' = WriteHeader w 200 in w'\<lparr>body := body w' @ p\<rparr>)"

definition Fprintln :: "ResponseWriter \<Rightarrow> string \<Rightarrow> ResponseWriter" where
  "Fprintln w a = Write w (a @ newline)"

definition http_Error :: "ResponseWriter \<Rightarrow> string \<Rightarrow> nat \<Rightarrow> ResponseWriter" where
  "http_Error w err code = Fprintln (WriteHeader w code) err"

definition finishRequest :: "ResponseWriter \<Rightarrow> ResponseWriter" where
  "finishRequest w = WriteHeader w 200"

subsection \<open>The collaborators\<close>

text \<open>A Kafka message; \<open>Value\<close> is the marshalled event (\<open>None\<close> for nil bytes).\<close>

record kafka_Message =
  Value :: "json option"

text \<open>
  The state the handlers share: the two counters (each the number of its \<open>Inc\<close> calls),
  the rows of the transactions table in the order of insertion, every message handed to
  \<open>kafkaWriter.WriteMessages\<close>, the messages the broker accepted for the topic, and the
  lines given to \<open>log.Printf\<close>.
\<close>

record World =
  inboundCounter :: nat
  outboundCounter :: nat
  db :: "Transaction list"
  kafkaWrites :: "kafka_Message list"
  edi_topic :: "kafka_Message list"
  logged :: "string list"

text \<open>
  \<open>db.Create(&transaction).Error\<close>. The insert fails when the database reports an error
  (the first argument, the error's text), and, \<open>ID\<close> being the table's primary key, when
  a row with the same \<open>ID\<close> exists. Otherwise the row is appended.
\<close>

definition db_Create :: "string option \<Rightarrow> Transaction \<Rightarrow> Transaction list \<Rightarrow> string + Transaction list" where
  "db_Create failure t rows =
     (case failure of
        Some err \<Rightarrow> Inl err
      | None \<Rightarrow>
          (if ID t \<in> set (map ID rows)
           then Inl ''duplicate key value violates unique constraint''
           else Inr (rows @ [t])))"

text \<open>\<open>db.Find(&transactions).Error\<close>: every row, or the database's error.\<close>

definition db_Find :: "string option \<Rightarrow> Transaction list \<Rightarrow> string + Transaction list" where
  "db_Find failure rows = (case failure of Some err \<Rightarrow> Inl err | None \<Rightarrow> Inr rows)"

text \<open>
  \<open>kafkaWriter.WriteMessages(ctx, msg)\<close>: the call is recorded; the message reaches the
  topic unless the writer reports an error (the first argument).
\<close>

definition WriteMessages :: "string option \<Rightarrow> kafka_Message \<Rightarrow> World \<Rightarrow> string option \<times> World" where
  "WriteMessages failure msg s =
     (let s1 = s\<lparr>kafkaWrites := kafkaWrites s @ [msg]\<rparr>
      in case failure of
           Some err \<Rightarrow> (Some err, s1)
         | None \<Rightarrow> (None, s1\<lparr>edi_topic := edi_topic s1 @ [msg]\<rparr>))"

subsection \<open>The handlers\<close>

text \<open>What one ingress call takes from its environment.\<close>

record InboundEnv =
  rand :: "8 word list"
  now :: Time
  create_error :: "string option"
  write_error :: "string option"

text \<open>
  \<open>inboundHandler\<close>. The result is the response writer, or \<open>Inl\<close> the panic of
  \<open>uuid.New\<close>, with the state the call leaves.
\<close>

definition inboundHandler :: "time_pkg \<Rightarrow> InboundEnv \<Rightarrow> json option \<Rightarrow> ResponseWriter \<Rightarrow> World
    \<Rightarrow> (string + ResponseWriter) \<times> World" where
  "inboundHandler L env rbody w s0 =
     (let s = s0\<lparr>inboundCounter := inboundCounter s0 + 1\<rparr> in
      case json_Decode L rbody of
        Inl err \<Rightarrow> (Inr (http_Error w ''Invalid JSON'' 400), s)
      | Inr decoded \<Rightarrow>
          (case uuid_NewRandom (rand env) of
             Inl err \<Rightarrow> (Inl err, s)
           | Inr u \<Rightarrow>
               (let transaction =
                      decoded\<lparr>ID := uuid_String u, Status := ''Processed'', Date := now env\<rparr>
                in case db_Create (create_error env) transaction (db s) of
                     Inl err \<Rightarrow>
                       (Inr (http_Error w ''Failed to save transaction'' 500),
                        s\<lparr>logged := logged s @ [''ERROR: '' @ err @ newline]\<rparr>)
                   | Inr rows \<Rightarrow>
                       (let s1 = s\<lparr>db := rows\<rparr>;
                            event = json_Marshal L transaction
                        in case WriteMessages (write_error env) \<lparr>Value = event\<rparr> s1 of
                             (Some err, s2) \<Rightarrow>
                               (Inr (http_Error w ''Failed to publish to Kafka'' 500),
                                s2\<lparr>logged := logged s2 @ [''Kafka publish error: '' @ err @ newline]\<rparr>)
                           | (None, s2) \<Rightarrow>
                               (Inr (Write w (''Inbound transaction processed: '' @
                                  fmt_plus_v L transaction @ newline)), s2)))))"

text \<open>The text \<open>fmt.Sprintf\<close> builds for one record in \<open>outboundHandler\<close>.\<close>

definition edi :: "Transaction \<Rightarrow> string" where
  "edi t =
     ''EDI 856: Shipment '' @ ID t @ '' to '' @ ShipTo t @ '' on '' @
     Format_datetime (Date t) @ '' with items: '' @ ItemList t @ newline"

record OutboundEnv =
  find_error :: "string option"

definition outboundHandler :: "OutboundEnv \<Rightarrow> ResponseWriter \<Rightarrow> World \<Rightarrow> ResponseWriter \<times> World" where
  "outboundHandler env w s0 =
     (let s = s0\<lparr>outboundCounter := outboundCounter s0 + 1\<rparr> in
      case db_Find (find_error env) (db s) of
        Inl err \<Rightarrow> (http_Error w ''Failed to fetch transactions'' 500, s)
      | Inr transactions \<Rightarrow> (fold (\<lambda>t w'. Fprintln w' (edi t)) transactions w, s))"

subsection \<open>The router\<close>

text \<open>
  The three routes of \<open>main\<close>: POST \<open>/inbound\<close>, GET \<open>/outbound\<close> and the metrics
  endpoint, which reads the counters. \<open>serve\<close> is the state one request leaves, each
  handler starting on a response writer of its own; \<open>serve_all\<close> serves requests one
  after the other.
\<close>

datatype request =
    POST_inbound InboundEnv "json option"
  | GET_outbound OutboundEnv
  | GET_metrics

fun serve :: "time_pkg \<Rightarrow> request \<Rightarrow> World \<Rightarrow> World" where
  "serve L (POST_inbound env rbody) s = snd (inboundHandler L env rbody new_ResponseWriter s)"
| "serve L (GET_outbound env) s = snd (outboundHandler env new_ResponseWriter s)"
| "serve L GET_metrics s = s"

definition serve_all :: "time_pkg \<Rightarrow> request list \<Rightarrow> World \<Rightarrow> World" where
  "serve_all L reqs s = fold (serve L) reqs s"

subsection \<open>Sample inputs\<close>

text \<open>
  Concrete inputs on which the model is evaluated: an instance of the time functions for
  UTC times without a fraction of the second, two environments with different random
  bytes, and a state with nothing stored.
\<close>

definition sample_rfc3339 :: "Time \<Rightarrow> string" where
  "sample_rfc3339 t =
     appendInt (year t) 4 @ ''-'' @ appendInt (int (month t)) 2 @ ''-'' @
     appendInt (int (day t)) 2 @ ''T'' @ appendInt (int (hour t)) 2 @ '':'' @
     appendInt (int (minute t)) 2 @ '':'' @ appendInt (int (second t)) 2 @ ''Z''"

definition sample_pkg :: time_pkg where
  "sample_pkg =
     \<lparr>time_UnmarshalJSON = (\<lambda>x. if x = ''0001-01-01T00:00:00Z'' then Some zero_Time else None),
      time_String = (\<lambda>t. Format_datetime t @ '' +0000 UTC''),
      time_MarshalJSON = (\<lambda>t. Some (JString (sample_rfc3339 t)))\<rparr>"

definition sample_now :: Time where
  "sample_now = \<lparr>year = 2024, month = 5, day = 17, hour = 9, minute = 30, second = 7,
     nanosecond = 0, zone_name = ''UTC'', zone_offset = 0, monotonic = None\<rparr>"

definition sample_env :: InboundEnv where
  "sample_env = \<lparr>rand = [0, 1, 2, 3, 4, 5, 6, 7, 8, 9, 10, 11, 12, 13, 14, 15],
     now = sample_now, create_error = None, write_error = None\<rparr>"

definition sample_env2 :: InboundEnv where
  "sample_env2 = \<lparr>rand = [16, 17, 18, 19, 20, 21, 22, 23, 24, 25, 26, 27, 28, 29, 30, 31],
     now = sample_now\<lparr>second := 8\<rparr>, create_error = None, write_error = None\<rparr>"

definition empty_World :: World where
  "empty_World = \<lparr>inboundCounter = 0, outboundCounter = 0, db = [], kafkaWrites = [],
     edi_topic = [], logged = []\<rparr>"

definition reads_ok :: OutboundEnv where
  "reads_ok = \<lparr>find_error = None\<rparr>"

definition sample_body :: "json option" where
  \<open>sample_body = Some (JObject [(''ship_to'', JString ''Acme''), (''items'', JString ''[{"sku":"A1"}]'')])\<close>

definition sample_decoded :: Transaction where
  \<open>sample_decoded = \<lparr>ID = [], Date = zero_Time, ShipTo = ''Acme'', ItemList = ''[{"sku":"A1"}]'', Status = []\<rparr>\<close>

definition sample_uuid :: "8 word list" where
  "sample_uuid = [0, 1, 2, 3, 4, 5, 0x46, 7, 0x88, 9, 10, 11, 12, 13, 14, 15]"

definition sample_tx :: Transaction where
  \<open>sample_tx = \<lparr>ID = ''00010203-0405-4607-8809-0a0b0c0d0e0f'', Date = sample_now, ShipTo = ''Acme'',
     ItemList = ''[{"sku":"A1"}]'', Status = ''Processed''\<rparr>\<close>

definition stored_World :: World where
  "stored_World = empty_World\<lparr>db := [sample_tx]\<rparr>"

definition client_fields_body :: "json option" where
  "client_fields_body = Some (JObject [(''id'', JString ''mine''),
     (''date'', JString ''0001-01-01T00:00:00Z''), (''status'', JString ''Shipped''),
     (''ship_to'', JString ''Acme''), (''items'', JString ''[1]'')])"

definition client_fields_decoded :: Transaction where
  "client_fields_decoded = \<lparr>ID = ''mine'', Date = zero_Time, ShipTo = ''Acme'', ItemList = ''[1]'',
     Status = ''Shipped''\<rparr>"

definition item_list_body :: "json option" where
  \<open>item_list_body = Some (JObject [(''ship_to'', JString ''Acme''),
     (''item_list'', JString ''[{"sku":"A1"}]'')])\<close>

definition repeated_items_body :: "(string \<times> json) list" where
  \<open>repeated_items_body = [(''items'', JString ''first''), (''ship_to'', JString ''Acme''),
     (''ITEMS'', JString ''[{"sku":"A1"}]''), (''item_list'', JString ''x''), (''items'', JNull)]\<close>

definition item_list_members :: "(string \<times> json) list" where
  \<open>item_list_members = [(''ship_to'', JString ''Acme''), (''item_list'', JString ''[{"sku":"A1"}]'')]\<close>

definition sample_uuid2 :: "8 word list" where
  "sample_uuid2 = [16, 17, 18, 19, 20, 21, 0x46, 23, 0x98, 25, 26, 27, 28, 29, 30, 31]"

definition sample_tx2 :: Transaction where
  \<open>sample_tx2 = \<lparr>ID = ''10111213-1415-4617-9819-1a1b1c1d1e1f'', Date = sample_now\<lparr>second := 8\<rparr>,
     ShipTo = ''Acme'', ItemList = ''[{"sku":"A1"}]'', Status = ''Processed''\<rparr>\<close>

section \<open>Properties\<close>

subsection \<open>The response writer\<close>

lemma status_http_Error [simp]: "status (http_Error new_ResponseWriter msg code) = code"
  by (simp add: http_Error_def Fprintln_def Write_def WriteHeader_def new_ResponseWriter_def Let_def)

lemma body_http_Error [simp]: "body (http_Error new_ResponseWriter msg code) = msg @ newline"
  by (simp add: http_Error_def Fprintln_def Write_def WriteHeader_def new_ResponseWriter_def Let_def)

lemma status_Write_new [simp]: "status (Write new_ResponseWriter p) = 200"
  by (simp add: Write_def WriteHeader_def new_ResponseWriter_def Let_def)

lemma body_Write_new [simp]: "body (Write new_ResponseWriter p) = p"
  by (simp add: Write_def WriteHeader_def new_ResponseWriter_def Let_def)

lemma body_Fprintln: "body (Fprintln w a) = body w @ a @ newline"
  by (simp add: Fprintln_def Write_def WriteHeader_def Let_def)



lemma body_fold_Fprintln:
  "body (fold (\<lambda>t w'. Fprintln w' (f t)) ts w) = body w @ concat (map (\<lambda>t. f t @ newline) ts)"
  by (induction ts arbitrary: w) (simp_all add: body_Fprintln)


lemma body_finishRequest [simp]: "body (finishRequest w) = body w"
  by (simp add: finishRequest_def WriteHeader_def)

subsection \<open>The paths through the ingress handler\<close>

lemma inbound_decode_error:
  "json_Decode L rbody = Inl e \<Longrightarrow>
   inboundHandler L env rbody w s =
     (Inr (http_Error w ''Invalid JSON'' 400), s\<lparr>inboundCounter := inboundCounter s + 1\<rparr>)"
  by (simp add: inboundHandler_def)

lemma inbound_panic:
  "json_Decode L rbody = Inr decoded \<Longrightarrow> uuid_NewRandom (rand env) = Inl p \<Longrightarrow>
   inboundHandler L env rbody w s = (Inl p, s\<lparr>inboundCounter := inboundCounter s + 1\<rparr>)"
  by (simp add: inboundHandler_def)

lemma inbound_create_error:
  "json_Decode L rbody = Inr decoded \<Longrightarrow> uuid_NewRandom (rand env) = Inr u \<Longrightarrow>
   db_Create (create_error env)
     (decoded\<lparr>ID := uuid_String u, Status := ''Processed'', Date := now env\<rparr>) (db s) = Inl err \<Longrightarrow>
   inboundHandler L env rbody w s =
     (Inr (http_Error w ''Failed to save transaction'' 500),
      s\<lparr>inboundCounter := inboundCounter s + 1,
        logged := logged s @ [''ERROR: '' @ err @ newline]\<rparr>)"
  by (simp add: inboundHandler_def)

lemma inbound_publish_error:
  "json_Decode L rbody = Inr decoded \<Longrightarrow> uuid_NewRandom (rand env) = Inr u \<Longrightarrow>
   tx = decoded\<lparr>ID := uuid_String u, Status := ''Processed'', Date := now env\<rparr> \<Longrightarrow>
   db_Create (create_error env) tx (db s) = Inr rows \<Longrightarrow>
   write_error env = Some err \<Longrightarrow>
   inboundHandler L env rbody w s =
     (Inr (http_Error w ''Failed to publish to Kafka'' 500),
      s\<lparr>inboundCounter := inboundCounter s + 1, db := rows,
        kafkaWrites := kafkaWrites s @ [\<lparr>Value = json_Marshal L tx\<rparr>],
        logged := logged s @ [''Kafka publish error: '' @ err @ newline]\<rparr>)"
  by (simp add: inboundHandler_def WriteMessages_def Let_def)

lemma inbound_ok:
  "json_Decode L rbody = Inr decoded \<Longrightarrow> uuid_NewRandom (rand env) = Inr u \<Longrightarrow>
   tx = decoded\<lparr>ID := uuid_String u, Status := ''Processed'', Date := now env\<rparr> \<Longrightarrow>
   db_Create (create_error env) tx (db s) = Inr rows \<Longrightarrow>
   write_error env = None \<Longrightarrow>
   inboundHandler L env rbody w s =
     (Inr (Write w (''Inbound transaction processed: '' @ fmt_plus_v L tx @ newline)),
      s\<lparr>inboundCounter := inboundCounter s + 1, db := rows,
        kafkaWrites := kafkaWrites s @ [\<lparr>Value = json_Marshal L tx\<rparr>],
        edi_topic := edi_topic s @ [\<lparr>Value = json_Marshal L tx\<rparr>]\<rparr>)"
  by (simp add: inboundHandler_def WriteMessages_def Let_def)

lemma db_Create_Inr:
  "db_Create failure t rows = Inr rows' \<longleftrightarrow>
   failure = None \<and> ID t \<notin> set (map ID rows) \<and> rows' = rows @ [t]"
  by (auto simp: db_Create_def split: option.splits)

lemma inbound_stores:
  assumes "inboundHandler L env rbody w s = (r, s')" "db s' \<noteq> db s"
  shows "\<exists>decoded u. json_Decode L rbody = Inr decoded \<and> uuid_NewRandom (rand env) = Inr u \<and>
     create_error env = None \<and> uuid_String u \<notin> set (map ID (db s)) \<and>
     db s' = db s @ [decoded\<lparr>ID := uuid_String u, Status := ''Processed'', Date := now env\<rparr>]"
  using assms
  by (auto simp: inboundHandler_def WriteMessages_def Let_def db_Create_def
      split: sum.splits option.splits prod.splits if_splits)

subsection \<open>Decoding an object\<close>

lemma store_keeps_ShipTo:
  "store L f v t = Stored t' \<Longrightarrow> f \<noteq> F_ShipTo \<Longrightarrow> ShipTo t' = ShipTo t"
  by (cases f; cases v) (auto simp: store_def split: option.splits)

lemma store_keeps_ItemList:
  "store L f v t = Stored t' \<Longrightarrow> f \<noteq> F_ItemList \<Longrightarrow> ItemList t' = ItemList t"
  by (cases f; cases v) (auto simp: store_def split: option.splits)

lemma store_ItemList:
  "store L F_ItemList (JString p) t = Stored (t\<lparr>ItemList := p\<rparr>)"
  by (simp add: store_def)

lemma object_keeps_ShipTo:
  "object L kvs t saved = Inr (t', saved') \<Longrightarrow>
   \<forall>k \<in> set (map fst kvs). find_field k \<noteq> Some F_ShipTo \<Longrightarrow> ShipTo t' = ShipTo t"
proof (induction kvs arbitrary: t saved)
  case Nil
  then show ?case by simp
next
  case (Cons kv kvs)
  obtain k v where kv: "kv = (k, v)" by (cases kv)
  show ?case
  proof (cases "find_field k")
    case None
    with Cons kv show ?thesis by simp
  next
    case (Some f)
    with Cons.prems kv have f: "f \<noteq> F_ShipTo" by auto
    show ?thesis
    proof (cases "store L f v t")
      case (Stored t1)
      with Cons.prems kv Some have "object L kvs t1 saved = Inr (t', saved')" by simp
      with Cons.IH Cons.prems(2) have "ShipTo t' = ShipTo t1" by simp
      with store_keeps_ShipTo [OF Stored f] show ?thesis by simp
    next
      case (Saved e)
      with Cons.prems kv Some
      have "object L kvs t (case saved of None \<Rightarrow> Some e | Some e0 \<Rightarrow> Some e0) = Inr (t', saved')"
        by simp
      with Cons.IH Cons.prems(2) show ?thesis by simp
    next
      case (Abort e)
      with Cons.prems kv Some show ?thesis by simp
    qed
  qed
qed

lemma object_keeps_ItemList:
  "object L kvs t saved = Inr (t', saved') \<Longrightarrow>
   \<forall>k \<in> set (map fst kvs). find_field k \<noteq> Some F_ItemList \<Longrightarrow> ItemList t' = ItemList t"
proof (induction kvs arbitrary: t saved)
  case Nil
  then show ?case by simp
next
  case (Cons kv kvs)
  obtain k v where kv: "kv = (k, v)" by (cases kv)
  show ?case
  proof (cases "find_field k")
    case None
    with Cons kv show ?thesis by simp
  next
    case (Some f)
    with Cons.prems kv have f: "f \<noteq> F_ItemList" by auto
    show ?thesis
    proof (cases "store L f v t")
      case (Stored t1)
      with Cons.prems kv Some have "object L kvs t1 saved = Inr (t', saved')" by simp
      with Cons.IH Cons.prems(2) have "ItemList t' = ItemList t1" by simp
      with store_keeps_ItemList [OF Stored f] show ?thesis by simp
    next
      case (Saved e)
      with Cons.prems kv Some
      have "object L kvs t (case saved of None \<Rightarrow> Some e | Some e0 \<Rightarrow> Some e0) = Inr (t', saved')"
        by simp
      with Cons.IH Cons.prems(2) show ?thesis by simp
    next
      case (Abort e)
      with Cons.prems kv Some show ?thesis by simp
    qed
  qed
qed

lemma json_Decode_object:
  "json_Decode L (Some (JObject kvs)) = Inr d \<Longrightarrow> object L kvs zero_Transaction None = Inr (d, None)"
  by (auto simp: json_Decode_def split: sum.splits option.splits prod.splits)

lemma json_Decode_empty_object: "json_Decode L (Some (JObject [])) = Inr zero_Transaction"
  by (simp add: json_Decode_def)

lemma find_field_items: "find_field ''items'' = Some F_ItemList"
  by code_simp

lemma find_field_item_list: "find_field ''item_list'' = None"
  by code_simp

lemma items_member_Nil [simp]: "items_member [] = None"
  by (simp add: items_member_def)

lemma items_member_Cons:
  "items_member ((k, v) # kvs) =
     (if find_field k = Some F_ItemList \<and> v \<noteq> JNull
      then (case items_member kvs of None \<Rightarrow> Some v | Some v' \<Rightarrow> Some v')
      else items_member kvs)"
  by (simp add: items_member_def split: list.splits)

lemma object_saved_sticks:
  "object L kvs t (Some e) = Inr (t', saved') \<Longrightarrow> saved' \<noteq> None"
proof (induction kvs arbitrary: t)
  case Nil
  then show ?case by auto
next
  case (Cons kv kvs)
  obtain k v where kv: "kv = (k, v)" by (cases kv)
  show ?case
  proof (cases "find_field k")
    case None
    with Cons kv show ?thesis by simp
  next
    case (Some f)
    show ?thesis
    proof (cases "store L f v t")
      case (Stored t1)
      with Cons kv Some show ?thesis by simp
    next
      case (Saved e1)
      with Cons kv Some show ?thesis by simp
    next
      case (Abort e1)
      with Cons.prems kv Some show ?thesis by simp
    qed
  qed
qed

lemma store_ItemList_cases:
  "store L F_ItemList v t = Stored t' \<Longrightarrow>
   (v = JNull \<and> t' = t) \<or> (\<exists>p. v = JString p \<and> t' = t\<lparr>ItemList := p\<rparr>)"
  by (cases v) (auto simp: store_def)

lemma object_last_ItemList:
  "object L kvs t saved = Inr (t', None) \<Longrightarrow>
   (case items_member kvs of
      None \<Rightarrow> ItemList t' = ItemList t
    | Some v \<Rightarrow> v = JString (ItemList t'))"
proof (induction kvs arbitrary: t saved)
  case Nil
  then show ?case by simp
next
  case (Cons kv kvs)
  obtain k v where kv: "kv = (k, v)" by (cases kv)
  show ?case
  proof (cases "find_field k")
    case None
    with Cons.prems kv have "object L kvs t saved = Inr (t', None)" by simp
    from Cons.IH [OF this] None kv show ?thesis
      by (simp add: items_member_Cons)
  next
    case (Some f)
    show ?thesis
    proof (cases "store L f v t")
      case (Abort e)
      with Cons.prems kv Some show ?thesis by simp
    next
      case (Saved e)
      with Cons.prems kv Some
      have "object L kvs t (Some (case saved of None \<Rightarrow> e | Some e0 \<Rightarrow> e0)) = Inr (t', None)"
        by (cases saved) simp_all
      from object_saved_sticks [OF this] show ?thesis by simp
    next
      case (Stored t1)
      with Cons.prems kv Some have rest: "object L kvs t1 saved = Inr (t', None)" by simp
      note ih = Cons.IH [OF rest]
      show ?thesis
      proof (cases "f = F_ItemList")
        case False
        from store_keeps_ItemList [OF Stored False] have "ItemList t1 = ItemList t" .
        with ih Some False kv show ?thesis
          by (simp add: items_member_Cons split: option.splits)
      next
        case True
        from store_ItemList_cases [OF Stored [unfolded True]]
        consider "v = JNull" "t1 = t" | p where "v = JString p" "t1 = t\<lparr>ItemList := p\<rparr>"
          by blast
        then show ?thesis
        proof cases
          case 1
          with ih kv show ?thesis
            by (simp add: items_member_Cons split: option.splits)
        next
          case 2
          with ih kv Some True show ?thesis
            by (simp add: items_member_Cons split: option.splits)
        qed
      qed
    qed
  qed
qed

lemma decoded_ItemList:
  assumes "json_Decode L (Some (JObject kvs)) = Inr d"
  shows "case items_member kvs of None \<Rightarrow> ItemList d = [] | Some v \<Rightarrow> v = JString (ItemList d)"
  using object_last_ItemList [OF json_Decode_object [OF assms]]
  by (simp add: zero_Transaction_def split: option.splits)

subsection \<open>The egress handler\<close>

lemma outbound_read_ok:
  "find_error oenv = None \<Longrightarrow>
   outboundHandler oenv w s =
     (fold (\<lambda>t w'. Fprintln w' (edi t)) (db s) w, s\<lparr>outboundCounter := outboundCounter s + 1\<rparr>)"
  by (simp add: outboundHandler_def db_Find_def)

lemma outbound_read_error:
  "find_error oenv = Some err \<Longrightarrow>
   outboundHandler oenv w s =
     (http_Error w ''Failed to fetch transactions'' 500,
      s\<lparr>outboundCounter := outboundCounter s + 1\<rparr>)"
  by (simp add: outboundHandler_def db_Find_def)

lemma sublist_concat_map:
  assumes "t \<in> set ts"
  shows "sublist (f t) (concat (map f ts))"
proof -
  from assms obtain xs ys where "ts = xs @ t # ys"
    by (auto dest: split_list)
  then show ?thesis by simp
qed

lemma sublist_edi:
  "sublist (ID t) (edi t)" "sublist (ShipTo t) (edi t)"
  "sublist (Format_datetime (Date t)) (edi t)" "sublist (ItemList t) (edi t)"
proof -
  show "sublist (ID t) (edi t)"
    unfolding edi_def by (rule sublist_appendI)
  have "edi t = (''EDI 856: Shipment '' @ ID t @ '' to '') @ ShipTo t @
      ('' on '' @ Format_datetime (Date t) @ '' with items: '' @ ItemList t @ newline)"
    by (simp add: edi_def)
  then show "sublist (ShipTo t) (edi t)"
    by (simp only: sublist_appendI)
  have "edi t = (''EDI 856: Shipment '' @ ID t @ '' to '' @ ShipTo t @ '' on '') @
      Format_datetime (Date t) @ ('' with items: '' @ ItemList t @ newline)"
    by (simp add: edi_def)
  then show "sublist (Format_datetime (Date t)) (edi t)"
    by (simp only: sublist_appendI)
  have "edi t = (''EDI 856: Shipment '' @ ID t @ '' to '' @ ShipTo t @ '' on '' @
      Format_datetime (Date t) @ '' with items: '') @ ItemList t @ newline"
    by (simp add: edi_def)
  then show "sublist (ItemList t) (edi t)"
    by (simp only: sublist_appendI)
qed

lemma sublist_within:
  assumes "sublist xs ys" "sublist ys zs"
  shows "sublist xs zs"
proof -
  from assms obtain p s p' s' where "ys = p @ xs @ s" "zs = p' @ ys @ s'"
    by (auto simp: sublist_def)
  then have "zs = (p' @ p) @ xs @ (s @ s')" by simp
  then show ?thesis unfolding sublist_def by blast
qed

lemma sublist_edi_egress:
  assumes "find_error oenv = None" "t \<in> set (db s)"
  shows "sublist (edi t) (body (fst (outboundHandler oenv new_ResponseWriter s)))"
proof -
  have "sublist (edi t @ newline) (concat (map (\<lambda>t. edi t @ newline) (db s)))"
    using assms(2) by (rule sublist_concat_map)
  moreover have "sublist (edi t) (edi t @ newline)"
    by simp
  ultimately have "sublist (edi t) (concat (map (\<lambda>t. edi t @ newline) (db s)))"
    by (rule sublist_within[rotated])
  then show ?thesis
    using assms(1) by (simp add: outbound_read_ok body_fold_Fprintln new_ResponseWriter_def)
qed

lemma edi_text:
  "edi t = ''EDI 856: Shipment '' @ ID t @ '' to '' @ ShipTo t @ '' on '' @
     Format_datetime (Date t) @ '' with items: '' @ ItemList t @ newline"
  by (simp add: edi_def)

lemma sublist_block_egress:
  assumes "find_error oenv = None" "t \<in> set (db s)"
  shows "sublist (edi t @ newline) (body (fst (outboundHandler oenv new_ResponseWriter s)))"
proof -
  have "sublist (edi t @ newline) (concat (map (\<lambda>t. edi t @ newline) (db s)))"
    using assms(2) by (rule sublist_concat_map)
  then show ?thesis
    using assms(1) by (simp add: outbound_read_ok body_fold_Fprintln new_ResponseWriter_def)
qed

lemma sublist_ItemList_egress:
  assumes "find_error oenv = None" "t \<in> set (db s)"
  shows "sublist (ItemList t) (body (fst (outboundHandler oenv new_ResponseWriter s)))"
  by (rule sublist_within [OF sublist_edi(4) sublist_edi_egress [OF assms]])

subsection \<open>The table only grows; identifiers\<close>

lemma db_inbound_cases:
  "db (snd (inboundHandler L env rbody w s)) = db s \<or>
   (\<exists>t. db (snd (inboundHandler L env rbody w s)) = db s @ [t])"
  by (auto simp: inboundHandler_def WriteMessages_def Let_def db_Create_def
      split: sum.splits option.splits prod.splits if_splits)

lemma db_outbound [simp]: "db (snd (outboundHandler oenv w s)) = db s"
  by (simp add: outboundHandler_def Let_def split: sum.splits)

lemma prefix_db_serve: "prefix (db s) (db (serve L r s))"
proof (cases r)
  case (POST_inbound env rbody)
  then show ?thesis
    using db_inbound_cases [of L env rbody new_ResponseWriter s] by auto
qed simp_all

lemma prefix_db_serve_all: "prefix (db s) (db (serve_all L reqs s))"
  unfolding serve_all_def
proof (induction reqs arbitrary: s)
  case Nil
  show ?case by simp
next
  case (Cons r reqs)
  have "prefix (db s) (db (serve L r s))" by (rule prefix_db_serve)
  also have "prefix (db (serve L r s)) (db (fold (serve L) reqs (serve L r s)))" by (rule Cons.IH)
  finally show ?case by simp
qed

lemma length_hex_Encode: "length (hex_Encode vs) = 2 * length vs"
  by (induction vs) simp_all

lemma length_uuid_NewRandom: "uuid_NewRandom r = Inr u \<Longrightarrow> length u = 16"
  by (auto simp: uuid_NewRandom_def Let_def split: if_splits)

lemma length_uuid_String: "length u = 16 \<Longrightarrow> length (uuid_String u) = 36"
  by (simp add: uuid_String_def length_hex_Encode)

lemma inbound_200:
  assumes "inboundHandler L env rbody new_ResponseWriter s = (Inr w, s')" "status w = 200"
  shows "\<exists>decoded u. json_Decode L rbody = Inr decoded \<and> uuid_NewRandom (rand env) = Inr u \<and>
     create_error env = None \<and> write_error env = None \<and>
     uuid_String u \<notin> set (map ID (db s)) \<and>
     db s' = db s @ [decoded\<lparr>ID := uuid_String u, Status := ''Processed'', Date := now env\<rparr>]"
  using assms
  by (auto simp: inboundHandler_def WriteMessages_def Let_def db_Create_def
      split: sum.splits option.splits prod.splits if_splits)

subsection \<open>The sample inputs, evaluated\<close>

lemma sample_decode: "json_Decode sample_pkg sample_body = Inr sample_decoded"
  by code_simp

lemma sample_random: "uuid_NewRandom (rand sample_env) = Inr sample_uuid"
  by code_simp

lemma sample_stamp:
  "sample_decoded\<lparr>ID := uuid_String sample_uuid, Status := ''Processed'', Date := now sample_env\<rparr> = sample_tx"
  by code_simp

lemma sample_random2: "uuid_NewRandom (rand sample_env2) = Inr sample_uuid2"
  by code_simp

lemma sample_stamp2:
  "sample_tx2 = sample_decoded\<lparr>ID := uuid_String sample_uuid2, Status := ''Processed'',
     Date := now sample_env2\<rparr>"
  by code_simp

lemma sample_stamp1:
  "sample_tx = sample_decoded\<lparr>ID := uuid_String sample_uuid, Status := ''Processed'',
     Date := now sample_env\<rparr>"
  by (simp add: sample_stamp)

lemma sample_first_call:
  "inboundHandler sample_pkg sample_env sample_body new_ResponseWriter empty_World =
     (Inr (Write new_ResponseWriter (''Inbound transaction processed: '' @
        fmt_plus_v sample_pkg sample_tx @ newline)),
      empty_World\<lparr>inboundCounter := inboundCounter empty_World + 1, db := [sample_tx],
        kafkaWrites := kafkaWrites empty_World @ [\<lparr>Value = json_Marshal sample_pkg sample_tx\<rparr>],
        edi_topic := edi_topic empty_World @ [\<lparr>Value = json_Marshal sample_pkg sample_tx\<rparr>]\<rparr>)"
proof -
  have c: "db_Create (create_error sample_env) sample_tx (db empty_World) = Inr [sample_tx]"
    by (simp add: db_Create_def sample_env_def empty_World_def)
  have w: "write_error sample_env = None"
    by (simp add: sample_env_def)
  show ?thesis
    by (rule inbound_ok [OF sample_decode sample_random sample_stamp1 c w])
qed

lemma sample_ids_differ: "ID sample_tx2 \<noteq> ID sample_tx"
  by (simp add: sample_tx_def sample_tx2_def)

lemma repeated_items_member:
  \<open>items_member repeated_items_body = Some (JString ''[{"sku":"A1"}]'')\<close>
  by code_simp

lemma item_list_members_none: "items_member item_list_members = None"
  by code_simp

lemma repeated_items_stored:
  "db (snd (inboundHandler sample_pkg sample_env (Some (JObject repeated_items_body))
     new_ResponseWriter empty_World)) \<noteq> db empty_World"
  by code_simp

lemma item_list_members_stored:
  "db (snd (inboundHandler sample_pkg sample_env (Some (JObject item_list_members))
     new_ResponseWriter empty_World)) \<noteq> db empty_World"
  by code_simp

lemma sample_block_text:
  \<open>''EDI 856: Shipment '' @ uuid_String sample_uuid @ '' to '' @ ShipTo sample_decoded @ '' on '' @
     Format_datetime (now (sample_env\<lparr>write_error := Some ''broker down''\<rparr>)) @ '' with items: '' @
     ItemList sample_decoded @ newline @ newline =
   ''EDI 856: Shipment 00010203-0405-4607-8809-0a0b0c0d0e0f to Acme on 2024-05-17 09:30:07 with items: [{"sku":"A1"}]\<newline>\<newline>''\<close>
  by code_simp

lemma sample_event:
  "(case time_MarshalJSON sample_pkg (now sample_env) of
      None \<Rightarrow> None
    | Some d \<Rightarrow> Some (JObject [(''id'', JString ''00010203-0405-4607-8809-0a0b0c0d0e0f''),
        (''date'', d), (''ship_to'', JString []), (''items'', JString []),
        (''status'', JString ''Processed'')])) =
   Some (JObject [(''id'', JString ''00010203-0405-4607-8809-0a0b0c0d0e0f''),
     (''date'', JString ''2024-05-17T09:30:07Z''), (''ship_to'', JString []),
     (''items'', JString []), (''status'', JString ''Processed'')])"
  by code_simp

lemma sample_uuid_text: "uuid_String sample_uuid = ''00010203-0405-4607-8809-0a0b0c0d0e0f''"
  by code_simp

subsection \<open>The counters\<close>

text \<open>
  C8. Every ingress call adds exactly one to the inbound counter, whichever path it takes
  (malformed body, panic, storage failure, publish failure, success), and leaves the
  outbound counter alone; every egress call adds exactly one to the outbound counter,
  whether the read fails or not and whatever the number of records, and leaves the inbound
  counter alone; the metrics route changes nothing.
\<close>

theorem counters_count_calls:
  "inboundCounter (snd (inboundHandler L env rbody w s)) = inboundCounter s + 1 \<and>
   outboundCounter (snd (inboundHandler L env rbody w s)) = outboundCounter s \<and>
   outboundCounter (snd (outboundHandler oenv w' s)) = outboundCounter s + 1 \<and>
   inboundCounter (snd (outboundHandler oenv w' s)) = inboundCounter s \<and>
   serve L GET_metrics s = s"
  by (simp add: inboundHandler_def outboundHandler_def WriteMessages_def Let_def
      split: sum.splits prod.splits option.splits)

theorem counters_count_calls_witness:
  "inboundCounter (snd (inboundHandler sample_pkg sample_env None new_ResponseWriter empty_World)) = 1 \<and>
   inboundCounter (snd (inboundHandler sample_pkg sample_env (Some (JObject []))
      new_ResponseWriter empty_World)) = 1 \<and>
   outboundCounter (snd (outboundHandler \<lparr>find_error = Some ''connection refused''\<rparr>
      new_ResponseWriter empty_World)) = 1 \<and>
   outboundCounter (snd (outboundHandler reads_ok new_ResponseWriter empty_World)) = 1"
  using counters_count_calls [of sample_pkg sample_env None new_ResponseWriter empty_World
      reads_ok new_ResponseWriter]
    counters_count_calls [of sample_pkg sample_env "Some (JObject [])" new_ResponseWriter
      empty_World "\<lparr>find_error = Some ''connection refused''\<rparr>" new_ResponseWriter]
  by (simp add: empty_World_def)

subsection \<open>What the ingress handler stores\<close>

text \<open>
  C2. When the body decodes and the call stores a row, the row has the identifier made from
  the server's random bytes (36 characters, and not the identifier of any row stored
  before), the date of the server's clock and the status "Processed"; of the decoded body
  it keeps the destination and the item payload only, so an identifier, date or status
  sent by the client is overwritten.
\<close>

theorem stored_record_server_fields:
  assumes "json_Decode L rbody = Inr decoded" "inboundHandler L env rbody w s = (r, s')"
    "db s' \<noteq> db s"
  shows "\<exists>u. uuid_NewRandom (rand env) = Inr u \<and>
     db s' = db s @ [\<lparr>ID = uuid_String u, Date = now env, ShipTo = ShipTo decoded,
        ItemList = ItemList decoded, Status = ''Processed''\<rparr>] \<and>
     length (uuid_String u) = 36 \<and> uuid_String u \<notin> set (map ID (db s))"
proof -
  from inbound_stores [OF assms(2,3)] assms(1) obtain u where
    u: "uuid_NewRandom (rand env) = Inr u" and
    fresh: "uuid_String u \<notin> set (map ID (db s))" and
    db: "db s' = db s @ [decoded\<lparr>ID := uuid_String u, Status := ''Processed'', Date := now env\<rparr>]"
    by auto
  have "length (uuid_String u) = 36"
    by (rule length_uuid_String [OF length_uuid_NewRandom [OF u]])
  moreover have "decoded\<lparr>ID := uuid_String u, Status := ''Processed'', Date := now env\<rparr> =
      \<lparr>ID = uuid_String u, Date = now env, ShipTo = ShipTo decoded,
        ItemList = ItemList decoded, Status = ''Processed''\<rparr>"
    by simp
  ultimately show ?thesis
    using u fresh db by simp
qed

theorem stored_record_server_fields_witness:
  "json_Decode sample_pkg client_fields_body = Inr client_fields_decoded \<and>
   db (snd (inboundHandler sample_pkg sample_env client_fields_body new_ResponseWriter empty_World))
     \<noteq> db empty_World \<and>
   (\<exists>u. uuid_NewRandom (rand sample_env) = Inr u \<and>
     db (snd (inboundHandler sample_pkg sample_env client_fields_body new_ResponseWriter empty_World)) =
       db empty_World @ [\<lparr>ID = uuid_String u, Date = now sample_env,
         ShipTo = ShipTo client_fields_decoded, ItemList = ItemList client_fields_decoded,
         Status = ''Processed''\<rparr>] \<and>
     length (uuid_String u) = 36 \<and> uuid_String u \<notin> set (map ID (db empty_World)))"
proof -
  have h1: "json_Decode sample_pkg client_fields_body = Inr client_fields_decoded"
    by code_simp
  have h2: "inboundHandler sample_pkg sample_env client_fields_body new_ResponseWriter empty_World =
      (fst (inboundHandler sample_pkg sample_env client_fields_body new_ResponseWriter empty_World),
       snd (inboundHandler sample_pkg sample_env client_fields_body new_ResponseWriter empty_World))"
    by simp
  have h3: "db (snd (inboundHandler sample_pkg sample_env client_fields_body new_ResponseWriter
      empty_World)) \<noteq> db empty_World"
    by code_simp
  show ?thesis
    using h1 h3 stored_record_server_fields [OF h1 h2 h3] by blast
qed

text \<open>
  C7. Ingress is not idempotent: when two calls with the same body both succeed (status
  200), with any requests served between them, each stores a row of its own; the two rows
  have the same destination and item payload and different identifiers.
\<close>

theorem repeated_ingress_distinct_ids:
  assumes "inboundHandler L env1 rbody new_ResponseWriter s0 = (Inr w1, s1)" "status w1 = 200"
    "inboundHandler L env2 rbody new_ResponseWriter (serve_all L reqs s1) = (Inr w2, s2)"
    "status w2 = 200"
  shows "\<exists>t1 t2. db s1 = db s0 @ [t1] \<and> db s2 = db (serve_all L reqs s1) @ [t2] \<and>
     t1 \<in> set (db s2) \<and> t2 \<in> set (db s2) \<and>
     ShipTo t1 = ShipTo t2 \<and> ItemList t1 = ItemList t2 \<and> ID t1 \<noteq> ID t2"
proof -
  from inbound_200 [OF assms(1,2)] obtain d1 u1 where
    d1: "json_Decode L rbody = Inr d1" and
    db1: "db s1 = db s0 @ [d1\<lparr>ID := uuid_String u1, Status := ''Processed'', Date := now env1\<rparr>]"
    by blast
  from inbound_200 [OF assms(3,4)] obtain d2 u2 where
    d2: "json_Decode L rbody = Inr d2" and
    fresh: "uuid_String u2 \<notin> set (map ID (db (serve_all L reqs s1)))" and
    db2: "db s2 = db (serve_all L reqs s1) @
      [d2\<lparr>ID := uuid_String u2, Status := ''Processed'', Date := now env2\<rparr>]"
    by blast
  define t1 where "t1 = d1\<lparr>ID := uuid_String u1, Status := ''Processed'', Date := now env1\<rparr>"
  define t2 where "t2 = d2\<lparr>ID := uuid_String u2, Status := ''Processed'', Date := now env2\<rparr>"
  from d1 d2 have same: "d1 = d2" by simp
  have "set (db s1) \<subseteq> set (db (serve_all L reqs s1))"
    by (rule set_mono_prefix [OF prefix_db_serve_all])
  with db1 have kept: "t1 \<in> set (db (serve_all L reqs s1))"
    by (auto simp: t1_def)
  then have "ID t1 \<in> set (map ID (db (serve_all L reqs s1)))"
    by simp
  with fresh have "ID t1 \<noteq> uuid_String u2"
    by metis
  then have ids: "ID t1 \<noteq> ID t2"
    by (simp add: t2_def)
  have "ShipTo t1 = ShipTo t2" "ItemList t1 = ItemList t2"
    by (simp_all add: t1_def t2_def same)
  with db1 db2 kept ids show ?thesis
    unfolding t1_def [symmetric] t2_def [symmetric] by auto
qed

theorem repeated_ingress_distinct_ids_witness:
  "\<exists>w1 s1 w2 s2 t1 t2.
      inboundHandler sample_pkg sample_env sample_body new_ResponseWriter empty_World = (Inr w1, s1) \<and>
      status w1 = 200 \<and>
      inboundHandler sample_pkg sample_env2 sample_body new_ResponseWriter
        (serve_all sample_pkg [GET_outbound reads_ok] s1) = (Inr w2, s2) \<and>
      status w2 = 200 \<and>
      db s1 = db empty_World @ [t1] \<and>
      db s2 = db (serve_all sample_pkg [GET_outbound reads_ok] s1) @ [t2] \<and>
      t1 \<in> set (db s2) \<and> t2 \<in> set (db s2) \<and>
      ShipTo t1 = ShipTo t2 \<and> ItemList t1 = ItemList t2 \<and> ID t1 \<noteq> ID t2"
proof -
  define w1 where "w1 = Write new_ResponseWriter (''Inbound transaction processed: '' @
      fmt_plus_v sample_pkg sample_tx @ newline)"
  define s1 where "s1 = empty_World\<lparr>inboundCounter := inboundCounter empty_World + 1,
      db := [sample_tx],
      kafkaWrites := kafkaWrites empty_World @ [\<lparr>Value = json_Marshal sample_pkg sample_tx\<rparr>],
      edi_topic := edi_topic empty_World @ [\<lparr>Value = json_Marshal sample_pkg sample_tx\<rparr>]\<rparr>"
  define m where "m = serve_all sample_pkg [GET_outbound reads_ok] s1"
  define w2 where "w2 = Write new_ResponseWriter (''Inbound transaction processed: '' @
      fmt_plus_v sample_pkg sample_tx2 @ newline)"
  define s2 where "s2 = m\<lparr>inboundCounter := inboundCounter m + 1, db := [sample_tx, sample_tx2],
      kafkaWrites := kafkaWrites m @ [\<lparr>Value = json_Marshal sample_pkg sample_tx2\<rparr>],
      edi_topic := edi_topic m @ [\<lparr>Value = json_Marshal sample_pkg sample_tx2\<rparr>]\<rparr>"
  have h1: "inboundHandler sample_pkg sample_env sample_body new_ResponseWriter empty_World =
      (Inr w1, s1)"
    unfolding w1_def s1_def by (rule sample_first_call)
  have h2: "status w1 = 200"
    unfolding w1_def by simp
  have dbm: "db m = [sample_tx]"
    by (simp add: m_def serve_all_def s1_def)
  have c: "db_Create (create_error sample_env2) sample_tx2 (db m) = Inr [sample_tx, sample_tx2]"
    using sample_ids_differ by (simp add: db_Create_def sample_env2_def dbm)
  have w: "write_error sample_env2 = None"
    by (simp add: sample_env2_def)
  have h3: "inboundHandler sample_pkg sample_env2 sample_body new_ResponseWriter
      (serve_all sample_pkg [GET_outbound reads_ok] s1) = (Inr w2, s2)"
    unfolding w2_def s2_def m_def [symmetric]
    by (rule inbound_ok [OF sample_decode sample_random2 sample_stamp2 c w])
  have h4: "status w2 = 200"
    unfolding w2_def by simp
  from repeated_ingress_distinct_ids [OF h1 h2 h3 h4] h1 h2 h3 h4 show ?thesis
    by blast
qed

text \<open>
  C10. The handler checks neither presence nor content of the caller's fields: when the
  body decodes and omits the payload fields (the body \<open>{}\<close>, the body \<open>null\<close>, or an
  object none of whose keys names \<open>ship_to\<close> or \<open>items\<close>), and the storage write and
  the publish succeed, the handler answers 200, stores the row with the server's
  identifier, date and status and an empty destination and item payload, and publishes
  the event of that row: the JSON object with \<open>ship_to\<close> and \<open>items\<close> the empty string
  (no bytes at all when \<open>Time.MarshalJSON\<close> reports an error, which the handler ignores).
\<close>

theorem absent_fields_accepted:
  assumes "json_Decode L (Some v) = Inr decoded" "omits_payload v"
    "uuid_NewRandom (rand env) = Inr u" "create_error env = None"
    "uuid_String u \<notin> set (map ID (db s))" "write_error env = None"
  shows "\<exists>w s' event. inboundHandler L env (Some v) new_ResponseWriter s = (Inr w, s') \<and>
     status w = 200 \<and>
     db s' = db s @ [\<lparr>ID = uuid_String u, Date = now env, ShipTo = [], ItemList = [],
       Status = ''Processed''\<rparr>] \<and>
     event = (case time_MarshalJSON L (now env) of
                None \<Rightarrow> None
              | Some d \<Rightarrow> Some (JObject [(''id'', JString (uuid_String u)), (''date'', d),
                  (''ship_to'', JString []), (''items'', JString []),
                  (''status'', JString ''Processed'')])) \<and>
     kafkaWrites s' = kafkaWrites s @ [\<lparr>Value = event\<rparr>] \<and>
     edi_topic s' = edi_topic s @ [\<lparr>Value = event\<rparr>]"
proof -
  define t where "t = decoded\<lparr>ID := uuid_String u, Status := ''Processed'', Date := now env\<rparr>"
  have empty: "ShipTo decoded = [] \<and> ItemList decoded = []"
  proof (cases v)
    case JNull
    with assms(1) show ?thesis
      by (auto simp: json_Decode_def zero_Transaction_def)
  next
    case (JObject kvs)
    from assms(1) have obj: "object L kvs zero_Transaction None = Inr (decoded, None)"
      unfolding JObject by (rule json_Decode_object)
    from assms(2) have no: "\<forall>k \<in> set (map fst kvs). find_field k \<noteq> Some F_ShipTo \<and>
        find_field k \<noteq> Some F_ItemList"
      by (auto simp: omits_payload_def JObject list_all_iff)
    then have "\<forall>k \<in> set (map fst kvs). find_field k \<noteq> Some F_ShipTo"
      by blast
    from object_keeps_ShipTo [OF obj this] have a: "ShipTo decoded = []"
      by (simp add: zero_Transaction_def)
    from no have "\<forall>k \<in> set (map fst kvs). find_field k \<noteq> Some F_ItemList"
      by blast
    from object_keeps_ItemList [OF obj this] have "ItemList decoded = []"
      by (simp add: zero_Transaction_def)
    with a show ?thesis by simp
  qed (use assms(1) in \<open>simp_all add: json_Decode_def\<close>)
  then have t: "t = \<lparr>ID = uuid_String u, Date = now env, ShipTo = [], ItemList = [],
      Status = ''Processed''\<rparr>"
    by (simp add: t_def)
  have c: "db_Create (create_error env) t (db s) = Inr (db s @ [t])"
    using assms(4,5) by (simp add: db_Create_def t)
  note run = inbound_ok [OF assms(1) assms(3) t_def c assms(6), where w = new_ResponseWriter]
  have ev: "json_Marshal L t =
      (case time_MarshalJSON L (now env) of
         None \<Rightarrow> None
       | Some d \<Rightarrow> Some (JObject [(''id'', JString (uuid_String u)), (''date'', d),
           (''ship_to'', JString []), (''items'', JString []),
           (''status'', JString ''Processed'')]))"
    by (simp add: json_Marshal_def t split: option.splits)
  show ?thesis
    unfolding run ev [symmetric] by (simp add: t [symmetric])
qed

theorem absent_fields_accepted_witness:
  "json_Decode sample_pkg (Some (JObject [])) = Inr zero_Transaction \<and>
   json_Decode sample_pkg (Some JNull) = Inr zero_Transaction \<and>
   json_Decode sample_pkg (Some (JObject [(''id'', JString ''mine''), (''note'', JNumber ''1'')])) =
     Inr (zero_Transaction\<lparr>ID := ''mine''\<rparr>) \<and>
   omits_payload (JObject []) \<and> omits_payload JNull \<and>
   omits_payload (JObject [(''id'', JString ''mine''), (''note'', JNumber ''1'')]) \<and>
   uuid_NewRandom (rand sample_env) = Inr sample_uuid \<and> create_error sample_env = None \<and>
   uuid_String sample_uuid \<notin> set (map ID (db empty_World)) \<and> write_error sample_env = None \<and>
   (\<exists>w s'. inboundHandler sample_pkg sample_env (Some (JObject [])) new_ResponseWriter empty_World =
       (Inr w, s') \<and>
     status w = 200 \<and>
     db s' = db empty_World @ [\<lparr>ID = ''00010203-0405-4607-8809-0a0b0c0d0e0f'', Date = now sample_env,
       ShipTo = [], ItemList = [], Status = ''Processed''\<rparr>] \<and>
     edi_topic s' = edi_topic empty_World @
       [\<lparr>Value = Some (JObject [(''id'', JString ''00010203-0405-4607-8809-0a0b0c0d0e0f''),
          (''date'', JString ''2024-05-17T09:30:07Z''), (''ship_to'', JString []),
          (''items'', JString []), (''status'', JString ''Processed'')])\<rparr>]) \<and>
   (\<exists>w s'. inboundHandler sample_pkg sample_env (Some JNull) new_ResponseWriter empty_World =
       (Inr w, s') \<and>
     status w = 200 \<and>
     db s' = db empty_World @ [\<lparr>ID = ''00010203-0405-4607-8809-0a0b0c0d0e0f'', Date = now sample_env,
       ShipTo = [], ItemList = [], Status = ''Processed''\<rparr>] \<and>
     edi_topic s' = edi_topic empty_World @
       [\<lparr>Value = Some (JObject [(''id'', JString ''00010203-0405-4607-8809-0a0b0c0d0e0f''),
          (''date'', JString ''2024-05-17T09:30:07Z''), (''ship_to'', JString []),
          (''items'', JString []), (''status'', JString ''Processed'')])\<rparr>]) \<and>
   (\<exists>w s'. inboundHandler sample_pkg sample_env
       (Some (JObject [(''id'', JString ''mine''), (''note'', JNumber ''1'')]))
       new_ResponseWriter empty_World = (Inr w, s') \<and>
     status w = 200 \<and>
     db s' = db empty_World @ [\<lparr>ID = ''00010203-0405-4607-8809-0a0b0c0d0e0f'', Date = now sample_env,
       ShipTo = [], ItemList = [], Status = ''Processed''\<rparr>] \<and>
     edi_topic s' = edi_topic empty_World @
       [\<lparr>Value = Some (JObject [(''id'', JString ''00010203-0405-4607-8809-0a0b0c0d0e0f''),
          (''date'', JString ''2024-05-17T09:30:07Z''), (''ship_to'', JString []),
          (''items'', JString []), (''status'', JString ''Processed'')])\<rparr>])"
proof -
  have d0: "json_Decode sample_pkg (Some (JObject [])) = Inr zero_Transaction"
    by (rule json_Decode_empty_object)
  have dn: "json_Decode sample_pkg (Some JNull) = Inr zero_Transaction"
    by (simp add: json_Decode_def)
  have f1: "find_field ''id'' = Some F_ID" and f2: "find_field ''note'' = None"
    by code_simp+
  have d1: "json_Decode sample_pkg (Some (JObject [(''id'', JString ''mine''), (''note'', JNumber ''1'')])) =
     Inr (zero_Transaction\<lparr>ID := ''mine''\<rparr>)"
    by (simp add: json_Decode_def f1 f2 store_def)
  have k0: "omits_payload (JObject [])" and kn: "omits_payload JNull"
    by (simp_all add: omits_payload_def)
  have k1: "omits_payload (JObject [(''id'', JString ''mine''), (''note'', JNumber ''1'')])"
    by (simp add: omits_payload_def f1 f2)
  have c: "create_error sample_env = None" and w: "write_error sample_env = None"
    by (simp_all add: sample_env_def)
  have fr: "uuid_String sample_uuid \<notin> set (map ID (db empty_World))"
    by (simp add: empty_World_def)
  note r0 = absent_fields_accepted [OF d0 k0 sample_random c fr w,
      unfolded sample_event sample_uuid_text]
  note rn = absent_fields_accepted [OF dn kn sample_random c fr w,
      unfolded sample_event sample_uuid_text]
  note r1 = absent_fields_accepted [OF d1 k1 sample_random c fr w,
      unfolded sample_event sample_uuid_text]
  from r0 have e0: "\<exists>w s'. inboundHandler sample_pkg sample_env (Some (JObject [])) new_ResponseWriter
       empty_World = (Inr w, s') \<and>
     status w = 200 \<and>
     db s' = db empty_World @ [\<lparr>ID = ''00010203-0405-4607-8809-0a0b0c0d0e0f'', Date = now sample_env,
       ShipTo = [], ItemList = [], Status = ''Processed''\<rparr>] \<and>
     edi_topic s' = edi_topic empty_World @
       [\<lparr>Value = Some (JObject [(''id'', JString ''00010203-0405-4607-8809-0a0b0c0d0e0f''),
          (''date'', JString ''2024-05-17T09:30:07Z''), (''ship_to'', JString []),
          (''items'', JString []), (''status'', JString ''Processed'')])\<rparr>]"
    by blast
  from rn have en: "\<exists>w s'. inboundHandler sample_pkg sample_env (Some JNull) new_ResponseWriter
       empty_World = (Inr w, s') \<and>
     status w = 200 \<and>
     db s' = db empty_World @ [\<lparr>ID = ''00010203-0405-4607-8809-0a0b0c0d0e0f'', Date = now sample_env,
       ShipTo = [], ItemList = [], Status = ''Processed''\<rparr>] \<and>
     edi_topic s' = edi_topic empty_World @
       [\<lparr>Value = Some (JObject [(''id'', JString ''00010203-0405-4607-8809-0a0b0c0d0e0f''),
          (''date'', JString ''2024-05-17T09:30:07Z''), (''ship_to'', JString []),
          (''items'', JString []), (''status'', JString ''Processed'')])\<rparr>]"
    by blast
  from r1 have e1: "\<exists>w s'. inboundHandler sample_pkg sample_env
       (Some (JObject [(''id'', JString ''mine''), (''note'', JNumber ''1'')]))
       new_ResponseWriter empty_World = (Inr w, s') \<and>
     status w = 200 \<and>
     db s' = db empty_World @ [\<lparr>ID = ''00010203-0405-4607-8809-0a0b0c0d0e0f'', Date = now sample_env,
       ShipTo = [], ItemList = [], Status = ''Processed''\<rparr>] \<and>
     edi_topic s' = edi_topic empty_World @
       [\<lparr>Value = Some (JObject [(''id'', JString ''00010203-0405-4607-8809-0a0b0c0d0e0f''),
          (''date'', JString ''2024-05-17T09:30:07Z''), (''ship_to'', JString []),
          (''items'', JString []), (''status'', JString ''Processed'')])\<rparr>]"
    by blast
  from d0 dn d1 k0 kn k1 sample_random c fr w e0 en e1 show ?thesis
    by (intro conjI)
qed

subsection \<open>The item payload from ingress to egress\<close>

text \<open>
  C1, as stated, fails: the struct's tag for the item payload is \<open>items\<close>, so a member
  named \<open>item_list\<close> names no field and the decoder skips it. The body of the spec's
  scenario is accepted with 200, the stored row has an empty item payload, and the egress
  output holds no trace of the string that was sent.
\<close>

theorem item_list_key_ignored_counterexample:
  \<open>find_field ''item_list'' = None \<and>
   status (projr (fst (inboundHandler sample_pkg sample_env item_list_body new_ResponseWriter
     empty_World))) = 200 \<and>
   map ItemList (db (snd (inboundHandler sample_pkg sample_env item_list_body new_ResponseWriter
     empty_World))) = [[]] \<and>
   body (fst (outboundHandler reads_ok new_ResponseWriter
     (snd (inboundHandler sample_pkg sample_env item_list_body new_ResponseWriter empty_World)))) =
     ''EDI 856: Shipment 00010203-0405-4607-8809-0a0b0c0d0e0f to Acme on 2024-05-17 09:30:07 with items: \<newline>\<newline>'' \<and>
   \<not> sublist ''[{"sku":"A1"}]''
     (body (fst (outboundHandler reads_ok new_ResponseWriter
       (snd (inboundHandler sample_pkg sample_env item_list_body new_ResponseWriter empty_World)))))\<close>
proof -
  let ?tx = "sample_tx\<lparr>ItemList := []\<rparr>"
  have f: "find_field ''item_list'' = None"
    by (rule find_field_item_list)
  have f2: "find_field ''ship_to'' = Some F_ShipTo"
    by code_simp
  have dec: "json_Decode sample_pkg item_list_body = Inr (sample_decoded\<lparr>ItemList := []\<rparr>)"
    by (simp add: item_list_body_def json_Decode_def f f2 store_def zero_Transaction_def
        sample_decoded_def)
  have st: "?tx = sample_decoded\<lparr>ItemList := []\<rparr>
      \<lparr>ID := uuid_String sample_uuid, Status := ''Processed'', Date := now sample_env\<rparr>"
    using sample_stamp1 by (simp add: sample_decoded_def sample_tx_def)
  have c: "db_Create (create_error sample_env) ?tx (db empty_World) = Inr [?tx]"
    by (simp add: db_Create_def sample_env_def empty_World_def)
  have w: "write_error sample_env = None"
    by (simp add: sample_env_def)
  note run = inbound_ok [OF dec sample_random st c w, where w = new_ResponseWriter]
  have dbs: "db (snd (inboundHandler sample_pkg sample_env item_list_body new_ResponseWriter
      empty_World)) = [?tx]"
    by (simp add: run)
  have body_new: "body new_ResponseWriter = []"
    by (simp add: new_ResponseWriter_def)
  have e: \<open>edi ?tx = ''EDI 856: Shipment 00010203-0405-4607-8809-0a0b0c0d0e0f to Acme on 2024-05-17 09:30:07 with items: \<newline>''\<close>
    by code_simp
  have b: \<open>body (fst (outboundHandler reads_ok new_ResponseWriter
     (snd (inboundHandler sample_pkg sample_env item_list_body new_ResponseWriter empty_World)))) =
     ''EDI 856: Shipment 00010203-0405-4607-8809-0a0b0c0d0e0f to Acme on 2024-05-17 09:30:07 with items: \<newline>\<newline>''\<close>
    by (simp add: dbs outbound_read_ok reads_ok_def body_Fprintln body_new e newline_def)
  have n: \<open>\<not> sublist ''[{"sku":"A1"}]'' ''EDI 856: Shipment 00010203-0405-4607-8809-0a0b0c0d0e0f to Acme on 2024-05-17 09:30:07 with items: \<newline>\<newline>''\<close>
    by code_simp
  show ?thesis
    using f n by (simp add: b dbs) (simp add: run)
qed

text \<open>
  C1, amended. The key \<open>items\<close> names the item payload and the key \<open>item_list\<close> names
  no field. When the body is an object and the call stores a row, the row's item payload
  is the string of the member that supplies it (the last member whose key names the
  \<open>items\<close> field and whose value is not \<open>null\<close>), as it is, and it is empty when no
  member supplies one. After any further requests the row is still in the table, and an
  egress call whose read succeeds prints the row's line, ending in the payload and two
  newlines; so the payload is a substring of the egress body.
\<close>

theorem items_round_trip:
  assumes "inboundHandler L env (Some (JObject kvs)) w s = (r, s')" "db s' \<noteq> db s"
    "find_error oenv = None"
  shows "find_field ''items'' = Some F_ItemList \<and> find_field ''item_list'' = None \<and>
     (\<exists>t. db s' = db s @ [t] \<and>
        (case items_member kvs of
           None \<Rightarrow> ItemList t = []
         | Some v \<Rightarrow> v = JString (ItemList t)) \<and>
        t \<in> set (db (serve_all L reqs s')) \<and>
        sublist (ItemList t)
          (body (fst (outboundHandler oenv new_ResponseWriter (serve_all L reqs s')))) \<and>
        sublist (''EDI 856: Shipment '' @ ID t @ '' to '' @ ShipTo t @ '' on '' @
            Format_datetime (Date t) @ '' with items: '' @ ItemList t @ newline @ newline)
          (body (fst (outboundHandler oenv new_ResponseWriter (serve_all L reqs s')))))"
proof -
  from inbound_stores [OF assms(1,2)] obtain decoded u where
    dec: "json_Decode L (Some (JObject kvs)) = Inr decoded" and
    db: "db s' = db s @ [decoded\<lparr>ID := uuid_String u, Status := ''Processed'', Date := now env\<rparr>]"
    by blast
  define t where "t = decoded\<lparr>ID := uuid_String u, Status := ''Processed'', Date := now env\<rparr>"
  have same: "ItemList t = ItemList decoded"
    by (simp add: t_def)
  from decoded_ItemList [OF dec]
  have items: "case items_member kvs of None \<Rightarrow> ItemList t = [] | Some v \<Rightarrow> v = JString (ItemList t)"
    by (simp only: same)
  have "set (db s') \<subseteq> set (db (serve_all L reqs s'))"
    by (rule set_mono_prefix [OF prefix_db_serve_all])
  with db have later: "t \<in> set (db (serve_all L reqs s'))"
    by (auto simp: t_def)
  have payload: "sublist (ItemList t)
      (body (fst (outboundHandler oenv new_ResponseWriter (serve_all L reqs s'))))"
    using assms(3) later by (rule sublist_ItemList_egress)
  have "sublist (edi t @ newline)
      (body (fst (outboundHandler oenv new_ResponseWriter (serve_all L reqs s'))))"
    using assms(3) later by (rule sublist_block_egress)
  then have block: "sublist (''EDI 856: Shipment '' @ ID t @ '' to '' @ ShipTo t @ '' on '' @
      Format_datetime (Date t) @ '' with items: '' @ ItemList t @ newline @ newline)
      (body (fst (outboundHandler oenv new_ResponseWriter (serve_all L reqs s'))))"
    by (simp add: edi_text)
  have "db s' = db s @ [t]"
    using db by (simp add: t_def)
  with items later payload block have
    "\<exists>t. db s' = db s @ [t] \<and>
        (case items_member kvs of
           None \<Rightarrow> ItemList t = []
         | Some v \<Rightarrow> v = JString (ItemList t)) \<and>
        t \<in> set (db (serve_all L reqs s')) \<and>
        sublist (ItemList t)
          (body (fst (outboundHandler oenv new_ResponseWriter (serve_all L reqs s')))) \<and>
        sublist (''EDI 856: Shipment '' @ ID t @ '' to '' @ ShipTo t @ '' on '' @
            Format_datetime (Date t) @ '' with items: '' @ ItemList t @ newline @ newline)
          (body (fst (outboundHandler oenv new_ResponseWriter (serve_all L reqs s'))))"
    by blast
  with find_field_items find_field_item_list show ?thesis
    by blast
qed

theorem items_round_trip_witness:
  \<open>items_member repeated_items_body = Some (JString ''[{"sku":"A1"}]'') \<and>
   items_member item_list_members = None \<and>
   find_error reads_ok = None \<and>
   db (snd (inboundHandler sample_pkg sample_env (Some (JObject repeated_items_body))
     new_ResponseWriter empty_World)) \<noteq> db empty_World \<and>
   db (snd (inboundHandler sample_pkg sample_env (Some (JObject item_list_members))
     new_ResponseWriter empty_World)) \<noteq> db empty_World \<and>
   (\<exists>t. db (snd (inboundHandler sample_pkg sample_env (Some (JObject repeated_items_body))
         new_ResponseWriter empty_World)) = db empty_World @ [t] \<and>
      ItemList t = ''[{"sku":"A1"}]'' \<and>
      sublist ''[{"sku":"A1"}]'' (body (fst (outboundHandler reads_ok new_ResponseWriter
        (serve_all sample_pkg [GET_metrics]
          (snd (inboundHandler sample_pkg sample_env (Some (JObject repeated_items_body))
             new_ResponseWriter empty_World)))))) \<and>
      sublist (''EDI 856: Shipment '' @ ID t @ '' to '' @ ShipTo t @ '' on '' @
          Format_datetime (Date t) @ '' with items: '' @ ''[{"sku":"A1"}]'' @ newline @ newline)
        (body (fst (outboundHandler reads_ok new_ResponseWriter
          (serve_all sample_pkg [GET_metrics]
            (snd (inboundHandler sample_pkg sample_env (Some (JObject repeated_items_body))
               new_ResponseWriter empty_World))))))) \<and>
   (\<exists>t. db (snd (inboundHandler sample_pkg sample_env (Some (JObject item_list_members))
         new_ResponseWriter empty_World)) = db empty_World @ [t] \<and>
      ItemList t = [])\<close>
proof -
  let ?a = "inboundHandler sample_pkg sample_env (Some (JObject repeated_items_body))
      new_ResponseWriter empty_World"
  let ?b = "inboundHandler sample_pkg sample_env (Some (JObject item_list_members))
      new_ResponseWriter empty_World"
  have ok: "find_error reads_ok = None"
    by (simp add: reads_ok_def)
  have a: "?a = (fst ?a, snd ?a)" and b: "?b = (fst ?b, snd ?b)"
    by simp_all
  from items_round_trip [OF a repeated_items_stored ok, of "[GET_metrics]"]
  obtain t where t: "db (snd ?a) = db empty_World @ [t]"
    "case items_member repeated_items_body of None \<Rightarrow> ItemList t = []
       | Some v \<Rightarrow> v = JString (ItemList t)"
    "sublist (ItemList t) (body (fst (outboundHandler reads_ok new_ResponseWriter
       (serve_all sample_pkg [GET_metrics] (snd ?a)))))"
    "sublist (''EDI 856: Shipment '' @ ID t @ '' to '' @ ShipTo t @ '' on '' @
        Format_datetime (Date t) @ '' with items: '' @ ItemList t @ newline @ newline)
       (body (fst (outboundHandler reads_ok new_ResponseWriter
         (serve_all sample_pkg [GET_metrics] (snd ?a)))))"
    by blast
  from t(2) have it: \<open>ItemList t = ''[{"sku":"A1"}]''\<close>
    by (simp add: repeated_items_member)
  from items_round_trip [OF b item_list_members_stored ok, of "[]"]
  obtain t' where t': "db (snd ?b) = db empty_World @ [t']"
    "case items_member item_list_members of None \<Rightarrow> ItemList t' = []
       | Some v \<Rightarrow> v = JString (ItemList t')"
    by blast
  from t'(2) have it': "ItemList t' = []"
    by (simp add: item_list_members_none)
  have first: \<open>\<exists>t. db (snd ?a) = db empty_World @ [t] \<and>
      ItemList t = ''[{"sku":"A1"}]'' \<and>
      sublist ''[{"sku":"A1"}]'' (body (fst (outboundHandler reads_ok new_ResponseWriter
        (serve_all sample_pkg [GET_metrics] (snd ?a))))) \<and>
      sublist (''EDI 856: Shipment '' @ ID t @ '' to '' @ ShipTo t @ '' on '' @
          Format_datetime (Date t) @ '' with items: '' @ ''[{"sku":"A1"}]'' @ newline @ newline)
        (body (fst (outboundHandler reads_ok new_ResponseWriter
          (serve_all sample_pkg [GET_metrics] (snd ?a)))))\<close>
    using t(1) it t(3) [unfolded it] t(4) [unfolded it] by (intro exI [of _ t] conjI)
  have second: "\<exists>t. db (snd ?b) = db empty_World @ [t] \<and> ItemList t = []"
    using t'(1) it' by blast
  from repeated_items_member item_list_members_none ok repeated_items_stored
    item_list_members_stored first second
  show ?thesis
    by (intro conjI)
qed

subsection \<open>Failure paths of the ingress handler\<close>

text \<open>
  C3. When the body decodes and the storage write fails (the database reports an error, or
  a row with the generated identifier exists), the handler answers 500 with the text
  "Failed to save transaction", and \<open>WriteMessages\<close> is not called: the list of messages
  handed to the Kafka writer, the topic and the table are what they were.
\<close>

theorem storage_failure_no_publish:
  assumes "json_Decode L rbody = Inr decoded" "uuid_NewRandom (rand env) = Inr u"
    "db_Create (create_error env)
       (decoded\<lparr>ID := uuid_String u, Status := ''Processed'', Date := now env\<rparr>) (db s) = Inl err"
  shows "\<exists>w s'. inboundHandler L env rbody new_ResponseWriter s = (Inr w, s') \<and>
     status w = 500 \<and> body w = ''Failed to save transaction'' @ newline \<and>
     kafkaWrites s' = kafkaWrites s \<and> edi_topic s' = edi_topic s \<and> db s' = db s"
  using inbound_create_error [OF assms, where w = new_ResponseWriter] by simp

theorem storage_failure_no_publish_witness:
  "json_Decode sample_pkg sample_body = Inr sample_decoded \<and>
   uuid_NewRandom (rand (sample_env\<lparr>create_error := Some ''connection refused''\<rparr>)) = Inr sample_uuid \<and>
   db_Create (create_error (sample_env\<lparr>create_error := Some ''connection refused''\<rparr>))
     (sample_decoded\<lparr>ID := uuid_String sample_uuid, Status := ''Processed'',
        Date := now (sample_env\<lparr>create_error := Some ''connection refused''\<rparr>)\<rparr>) (db empty_World)
     = Inl ''connection refused'' \<and>
   (\<exists>w s'. inboundHandler sample_pkg (sample_env\<lparr>create_error := Some ''connection refused''\<rparr>)
        sample_body new_ResponseWriter empty_World = (Inr w, s') \<and>
     status w = 500 \<and> body w = ''Failed to save transaction'' @ newline \<and>
     kafkaWrites s' = kafkaWrites empty_World \<and> edi_topic s' = edi_topic empty_World \<and>
     db s' = db empty_World)"
proof -
  let ?env = "sample_env\<lparr>create_error := Some ''connection refused''\<rparr>"
  have h2: "uuid_NewRandom (rand ?env) = Inr sample_uuid"
    by code_simp
  have h3: "db_Create (create_error ?env)
     (sample_decoded\<lparr>ID := uuid_String sample_uuid, Status := ''Processed'', Date := now ?env\<rparr>)
     (db empty_World) = Inl ''connection refused''"
    by (simp add: db_Create_def)
  show ?thesis
    using sample_decode h2 h3 storage_failure_no_publish [OF sample_decode h2 h3] by blast
qed

text \<open>
  C4. When the storage write succeeds and the publish fails, the handler answers 500 with
  the text "Failed to publish to Kafka", nothing reaches the topic, and the row stays in
  the table: after any further requests it is still a row of the table, and an egress call
  whose read succeeds prints its line, that is the text "EDI 856: Shipment", the
  generated identifier, the destination and item payload of the request and the date of
  the server's clock, followed by two newlines.
\<close>

theorem publish_failure_keeps_record:
  assumes "json_Decode L rbody = Inr decoded" "uuid_NewRandom (rand env) = Inr u"
    "tx = decoded\<lparr>ID := uuid_String u, Status := ''Processed'', Date := now env\<rparr>"
    "db_Create (create_error env) tx (db s) = Inr rows"
    "write_error env = Some err" "find_error oenv = None"
  shows "\<exists>w s'. inboundHandler L env rbody new_ResponseWriter s = (Inr w, s') \<and>
     status w = 500 \<and> body w = ''Failed to publish to Kafka'' @ newline \<and>
     db s' = db s @ [tx] \<and> edi_topic s' = edi_topic s \<and>
     tx \<in> set (db (serve_all L reqs s')) \<and>
     sublist (edi tx) (body (fst (outboundHandler oenv new_ResponseWriter (serve_all L reqs s')))) \<and>
     sublist (''EDI 856: Shipment '' @ uuid_String u @ '' to '' @ ShipTo decoded @ '' on '' @
         Format_datetime (now env) @ '' with items: '' @ ItemList decoded @ newline @ newline)
       (body (fst (outboundHandler oenv new_ResponseWriter (serve_all L reqs s'))))"
proof -
  define s' where "s' = snd (inboundHandler L env rbody new_ResponseWriter s)"
  define w where "w = http_Error new_ResponseWriter ''Failed to publish to Kafka'' 500"
  have run: "inboundHandler L env rbody new_ResponseWriter s = (Inr w, s')"
    unfolding s'_def w_def
    by (simp add: inbound_publish_error [OF assms(1-5), where w = new_ResponseWriter])
  have rows: "rows = db s @ [tx]"
    using assms(4) by (simp add: db_Create_Inr)
  have db: "db s' = db s @ [tx]" and topic: "edi_topic s' = edi_topic s"
    unfolding s'_def
    by (simp_all add: inbound_publish_error [OF assms(1-5), where w = new_ResponseWriter] rows)
  have "set (db s') \<subseteq> set (db (serve_all L reqs s'))"
    by (rule set_mono_prefix [OF prefix_db_serve_all])
  then have later: "tx \<in> set (db (serve_all L reqs s'))"
    using db by auto
  have line: "sublist (edi tx)
      (body (fst (outboundHandler oenv new_ResponseWriter (serve_all L reqs s'))))"
    using assms(6) later by (rule sublist_edi_egress)
  have "sublist (edi tx @ newline)
      (body (fst (outboundHandler oenv new_ResponseWriter (serve_all L reqs s'))))"
    using assms(6) later by (rule sublist_block_egress)
  then have block: "sublist (''EDI 856: Shipment '' @ uuid_String u @ '' to '' @ ShipTo decoded @
      '' on '' @ Format_datetime (now env) @ '' with items: '' @ ItemList decoded @ newline @ newline)
      (body (fst (outboundHandler oenv new_ResponseWriter (serve_all L reqs s'))))"
    by (simp add: edi_text assms(3))
  have st: "status w = 500" and bd: "body w = ''Failed to publish to Kafka'' @ newline"
    by (simp_all add: w_def)
  from run st bd db topic later line block show ?thesis
    by blast
qed

theorem publish_failure_keeps_record_witness:
  \<open>json_Decode sample_pkg sample_body = Inr sample_decoded \<and>
   uuid_NewRandom (rand (sample_env\<lparr>write_error := Some ''broker down''\<rparr>)) = Inr sample_uuid \<and>
   sample_tx = sample_decoded\<lparr>ID := uuid_String sample_uuid, Status := ''Processed'',
      Date := now (sample_env\<lparr>write_error := Some ''broker down''\<rparr>)\<rparr> \<and>
   db_Create (create_error (sample_env\<lparr>write_error := Some ''broker down''\<rparr>)) sample_tx
      (db empty_World) = Inr [sample_tx] \<and>
   write_error (sample_env\<lparr>write_error := Some ''broker down''\<rparr>) = Some ''broker down'' \<and>
   find_error reads_ok = None \<and>
   (\<exists>w s'. inboundHandler sample_pkg (sample_env\<lparr>write_error := Some ''broker down''\<rparr>)
        sample_body new_ResponseWriter empty_World = (Inr w, s') \<and>
     status w = 500 \<and> body w = ''Failed to publish to Kafka'' @ newline \<and>
     db s' = db empty_World @ [sample_tx] \<and> edi_topic s' = edi_topic empty_World \<and>
     sample_tx \<in> set (db (serve_all sample_pkg [GET_metrics, POST_inbound sample_env2 sample_body] s')) \<and>
     sublist (edi sample_tx) (body (fst (outboundHandler reads_ok new_ResponseWriter
        (serve_all sample_pkg [GET_metrics, POST_inbound sample_env2 sample_body] s')))) \<and>
     sublist ''EDI 856: Shipment 00010203-0405-4607-8809-0a0b0c0d0e0f to Acme on 2024-05-17 09:30:07 with items: [{"sku":"A1"}]\<newline>\<newline>''
       (body (fst (outboundHandler reads_ok new_ResponseWriter
        (serve_all sample_pkg [GET_metrics, POST_inbound sample_env2 sample_body] s')))))\<close>
proof -
  let ?env = "sample_env\<lparr>write_error := Some ''broker down''\<rparr>"
  have h2: "uuid_NewRandom (rand ?env) = Inr sample_uuid"
    by code_simp
  have h3: "sample_tx = sample_decoded\<lparr>ID := uuid_String sample_uuid, Status := ''Processed'',
      Date := now ?env\<rparr>"
    by code_simp
  have h4: "db_Create (create_error ?env) sample_tx (db empty_World) = Inr [sample_tx]"
    by (simp add: db_Create_def sample_env_def empty_World_def)
  have h5: "write_error ?env = Some ''broker down''"
    by simp
  have h6: "find_error reads_ok = None"
    by (simp add: reads_ok_def)
  note r = publish_failure_keeps_record [OF sample_decode h2 h3 h4 h5 h6,
      of "[GET_metrics, POST_inbound sample_env2 sample_body]", unfolded sample_block_text]
  from sample_decode h2 h3 h4 h5 h6 r show ?thesis
    by (intro conjI)
qed

text \<open>
  C5, as stated, fails: a malformed body is not free of side effects. The inbound counter is
  incremented before the body is decoded, so the state after the call differs from the
  state before it.
\<close>

theorem malformed_body_counts_counterexample:
  "json_Decode sample_pkg None = Inl SyntaxError \<and>
   inboundCounter stored_World = 0 \<and>
   inboundCounter (snd (inboundHandler sample_pkg sample_env None new_ResponseWriter stored_World)) = 1 \<and>
   snd (inboundHandler sample_pkg sample_env None new_ResponseWriter stored_World) \<noteq> stored_World"
proof -
  have h: "json_Decode sample_pkg None = Inl SyntaxError"
    by (simp add: json_Decode_def)
  have c0: "inboundCounter stored_World = 0"
    by (simp add: stored_World_def empty_World_def)
  have c1: "inboundCounter (snd (inboundHandler sample_pkg sample_env None new_ResponseWriter
      stored_World)) = 1"
    by (simp add: inbound_decode_error [OF h] c0)
  from c0 c1 have "snd (inboundHandler sample_pkg sample_env None new_ResponseWriter stored_World)
      \<noteq> stored_World"
    by auto
  with h c0 c1 show ?thesis by simp
qed

text \<open>
  C5, amended. When the body does not decode, the handler answers 400 with the text
  "Invalid JSON" and the only change of state is the inbound counter, one higher: no row
  is created, \<open>WriteMessages\<close> is not called, nothing is logged.
\<close>

theorem malformed_body_rejected:
  assumes "json_Decode L rbody = Inl e"
  shows "\<exists>w. inboundHandler L env rbody new_ResponseWriter s =
       (Inr w, s\<lparr>inboundCounter := inboundCounter s + 1\<rparr>) \<and>
     status w = 400 \<and> body w = ''Invalid JSON'' @ newline"
  by (simp add: inbound_decode_error [OF assms])

theorem malformed_body_rejected_witness:
  "json_Decode sample_pkg None = Inl SyntaxError \<and>
   (\<exists>w. inboundHandler sample_pkg sample_env None new_ResponseWriter stored_World =
       (Inr w, stored_World\<lparr>inboundCounter := inboundCounter stored_World + 1\<rparr>) \<and>
     status w = 400 \<and> body w = ''Invalid JSON'' @ newline)"
proof -
  have h: "json_Decode sample_pkg None = Inl SyntaxError"
    by (simp add: json_Decode_def)
  show ?thesis
    using h malformed_body_rejected [OF h, of sample_env stored_World] by blast
qed

subsection \<open>The egress response\<close>

text \<open>
  C9. With no row in the table and a read that succeeds, the handler writes nothing: the
  response is 200 with an empty body.
\<close>

theorem egress_empty_store:
  assumes "db s = []" "find_error oenv = None"
  shows "status (finishRequest (fst (outboundHandler oenv new_ResponseWriter s))) = 200 \<and>
     body (finishRequest (fst (outboundHandler oenv new_ResponseWriter s))) = []"
  using assms
  by (simp add: outbound_read_ok finishRequest_def WriteHeader_def new_ResponseWriter_def)

theorem egress_empty_store_witness:
  "db empty_World = [] \<and> find_error reads_ok = None \<and>
   status (finishRequest (fst (outboundHandler reads_ok new_ResponseWriter empty_World))) = 200 \<and>
   body (finishRequest (fst (outboundHandler reads_ok new_ResponseWriter empty_World))) = []"
proof -
  have h1: "db empty_World = []" by (simp add: empty_World_def)
  have h2: "find_error reads_ok = None" by (simp add: reads_ok_def)
  show ?thesis
    using h1 h2 egress_empty_store [OF h1 h2] by simp
qed




end
